theory Spec2Isabelle
  imports Main "HOL-Library.Word"
begin

section \<open>Data model of package sct (sct.go)\<close>

text \<open>
  The package verifies Signed Certificate Timestamps of a TLS connection. Its own code
  is the orchestration in \<^verbatim>\<open>sct.go\<close>; deserialisation, Merkle-leaf construction,
  signature and inclusion verification are calls into the certificate-transparency-go
  library, and \<^verbatim>\<open>buildCertificateChain\<close>, \<^verbatim>\<open>newLogInfoFromLog\<close> and
  \<^verbatim>\<open>newDefaultLogList\<close> live in files of the package that are not part of the
  verified source. All of these are taken as parameters (record \<open>env\<close> below), so every
  theorem holds for whatever they compute. A parameter gives what a call returns; the one
  call that does not return for every argument, \<^verbatim>\<open>ct.MerkleTreeLeafFromChain\<close> on an
  empty chain, is written out (\<open>ct_MerkleTreeLeafFromChain\<close> below).
\<close>

type_synonym bytes = "8 word list"

text \<open>An error value that a called function returned and that the code passes on.\<close>
type_synonym lib_error = string

text \<open>\<^verbatim>\<open>ctx509.SerializedSCT{Val []byte}\<close>\<close>
record SerializedSCT =
  Val :: bytes

text \<open>\<^verbatim>\<open>ct.SignedCertificateTimestamp\<close>; \<open>LogID\<close> is the key hash, \<open>Timestamp\<close> is
  a \<^verbatim>\<open>uint64\<close> of milliseconds since the Unix epoch.\<close>
record SignedCertificateTimestamp =
  SCTVersion :: nat
  LogID :: bytes
  Timestamp :: "64 word"
  Extensions :: bytes
  Signature :: bytes

text \<open>\<^verbatim>\<open>ctx509.Certificate\<close>: the raw DER bytes and the embedded list
  \<^verbatim>\<open>SCTList.SCTList\<close>.\<close>
record Certificate =
  Raw :: bytes
  SCTList :: "SerializedSCT list"

datatype LogEntryType = X509LogEntryType | PrecertLogEntryType

text \<open>\<^verbatim>\<open>ct.MerkleTreeLeaf\<close>, as far as the library's builders fill it: the timestamp
  and entry type asked for, and the signed entry.\<close>
record MerkleTreeLeaf =
  LeafTimestamp :: "64 word"
  LeafEntryType :: LogEntryType
  SignedEntry :: bytes

text \<open>\<^verbatim>\<open>loglist2.Log\<close>: only \<open>Description\<close> is read by sct.go.\<close>
record Log =
  Description :: string
  Key :: bytes

text \<open>\<^verbatim>\<open>ctutil.LogInfo\<close>: \<open>MMD\<close> is a \<^verbatim>\<open>time.Duration\<close>, a signed 64-bit count
  of nanoseconds.\<close>
record LogInfo =
  InfoDescription :: string
  MMD :: int

text \<open>\<^verbatim>\<open>tls.ConnectionState\<close>: the fields sct.go mentions. A peer certificate
  (crypto/x509) is represented by its raw DER bytes.\<close>
record ConnectionState =
  PeerCertificates :: "bytes list"
  SignedCertificateTimestamps :: "bytes list"
  OCSPResponse :: bytes

text \<open>
  The error values of sct.go, one constructor for each \<^verbatim>\<open>errors.New\<close> and
  \<^verbatim>\<open>fmt.Errorf\<close> of the file, with the arguments the message is formatted from;
  \<open>External e\<close> is an error \<open>e\<close> returned by a callee and handed back unchanged
  (\<^verbatim>\<open>return err\<close>).
\<close>
datatype error =
    NoConnectionState         \<comment> \<open>"no TLS connection state"\<close>
  | NoPeerCertificates        \<comment> \<open>"no peer certificates in TLS connection state"\<close>
  | NoSCTsFound               \<comment> \<open>"no Signed Certificate Timestamps found"\<close>
  | NoSCTsInHandshake         \<comment> \<open>"no SCTs in SSL handshake"\<close>
  | NoValidSCTInHandshake     \<comment> \<open>"no valid SCT in SSL handshake"\<close>
  | NoSCTsInLeaf              \<comment> \<open>"no SCTs in leaf certificate"\<close>
  | NoIssuerInChain           \<comment> \<open>"no issuer certificate in chain"\<close>
  | NoLogFound bytes          \<comment> \<open>"no log found with KeyID %x"\<close>
  | NoLogClient string        \<comment> \<open>"could not create client for log %s"\<close>
  | InclusionFailed string    \<comment> \<open>"failed to verify inclusion in log %q"\<close>
  | External lib_error

text \<open>A returned Go \<^verbatim>\<open>error\<close>: \<open>Nil\<close> is success.\<close>
datatype status = Nil | Err error

text \<open>A call either returns or panics (index out of range).\<close>
datatype 'a outcome = Panic | Returns 'a

text \<open>
  What the methods of \<^verbatim>\<open>checker\<close> call: the checker's log list \<open>ll\<close> (through
  \<^verbatim>\<open>FindLogByKeyHash\<close>, \<open>None\<close> for a nil result), the library and package
  functions named as in the source, and the wall clock read by \<^verbatim>\<open>time.Since\<close>
  (\<open>Now\<close>, in nanoseconds since the Unix epoch).
\<close>
record env =
  ll :: "bytes \<rightharpoonup> Log"
  ExtractSCT :: "SerializedSCT \<Rightarrow> lib_error + SignedCertificateTimestamp"
  newLogInfoFromLog :: "Log \<Rightarrow> lib_error + LogInfo"
  VerifySCTSignature ::
    "LogInfo \<Rightarrow> SignedCertificateTimestamp \<Rightarrow> MerkleTreeLeaf \<Rightarrow> lib_error option"
  VerifyInclusion :: "LogInfo \<Rightarrow> MerkleTreeLeaf \<Rightarrow> 64 word \<Rightarrow> lib_error + int"
  MerkleTreeLeafFromChain ::
    "Certificate list \<Rightarrow> LogEntryType \<Rightarrow> 64 word \<Rightarrow> lib_error + MerkleTreeLeaf"
  MerkleTreeLeafForEmbeddedSCT ::
    "Certificate list \<Rightarrow> 64 word \<Rightarrow> lib_error + MerkleTreeLeaf"
  buildCertificateChain :: "bytes list \<Rightarrow> lib_error + Certificate list"
  Now :: int

section \<open>Time\<close>

text \<open>\<^verbatim>\<open>time.Duration\<close> is an int64 of nanoseconds.\<close>
definition minDuration :: int where
  "minDuration = - (2 ^ 63)"

definition maxDuration :: int where
  "maxDuration = 2 ^ 63 - 1"

definition Hour :: int where
  "Hour = 3600 * 1000000000"

text \<open>\<^verbatim>\<open>ct.TimestampToTime(ts) = time.Unix(int64(ts/1000), int64(ts%1000)*1000000)\<close>,
  as nanoseconds since the Unix epoch.\<close>
definition TimestampToTime :: "64 word \<Rightarrow> int" where
  "TimestampToTime ts =
     int (unat ts div 1000) * 1000000000 + int (unat ts mod 1000) * 1000000"

text \<open>\<^verbatim>\<open>time.Since(t) = time.Now().Sub(t)\<close>: the difference, saturated to the range
  of a Duration.\<close>
definition time_Since :: "int \<Rightarrow> int \<Rightarrow> int" where
  "time_Since now t =
     (let d = now - t in
      if d < minDuration then minDuration
      else if maxDuration < d then maxDuration
      else d)"

section \<open>The checker\<close>

text \<open>\<^verbatim>\<open>chain[i]\<close>\<close>
definition index :: "'a list \<Rightarrow> nat \<Rightarrow> 'a outcome" where
  "index xs i = (if i < length xs then Returns (xs ! i) else Panic)"

text \<open>
  The call \<^verbatim>\<open>ct.MerkleTreeLeafFromChain(chain, etype, timestamp)\<close>. For an X509 entry
  the library reads \<^verbatim>\<open>chain[0].Raw\<close> without a test of the length, so the call panics
  on the empty chain; in every other case it returns what the parameter
  \<open>MerkleTreeLeafFromChain\<close> gives.
\<close>
definition ct_MerkleTreeLeafFromChain ::
  "env \<Rightarrow> Certificate list \<Rightarrow> LogEntryType \<Rightarrow> 64 word \<Rightarrow> (lib_error + MerkleTreeLeaf) outcome" where
  "ct_MerkleTreeLeafFromChain c chain etype timestamp =
     (if etype = X509LogEntryType then
        (case index chain 0 of
           Panic \<Rightarrow> Panic
         | Returns cert \<Rightarrow> Returns (MerkleTreeLeafFromChain c chain etype timestamp))
      else Returns (MerkleTreeLeafFromChain c chain etype timestamp))"

definition checkOneSCT :: "env \<Rightarrow> SerializedSCT \<Rightarrow> MerkleTreeLeaf \<Rightarrow> status" where
  "checkOneSCT c x509SCT merkleLeaf =
     (case ExtractSCT c x509SCT of
        Inl err \<Rightarrow> Err (External err)
      | Inr sct \<Rightarrow>
          (case ll c (LogID sct) of
             None \<Rightarrow> Err (NoLogFound (LogID sct))
           | Some ctLog \<Rightarrow>
               (case newLogInfoFromLog c ctLog of
                  Inl err \<Rightarrow> Err (NoLogClient (Description ctLog))
                | Inr logInfo \<Rightarrow>
                    (case VerifySCTSignature c logInfo sct merkleLeaf of
                       Some err \<Rightarrow> Err (External err)
                     | None \<Rightarrow>
                         (case VerifyInclusion c logInfo merkleLeaf (Timestamp sct) of
                            Inl err \<Rightarrow>
                              (let age = time_Since (Now c) (TimestampToTime (Timestamp sct))
                               in if MMD logInfo \<le> age
                                  then Err (InclusionFailed (Description ctLog))
                                  else Nil)
                          | Inr _ \<Rightarrow> Nil)))))"

text \<open>The loop of \<^verbatim>\<open>checkTLSSCTs\<close> and of \<^verbatim>\<open>checkOcspSCTs\<close> (the two are the
  same text), with the \<^verbatim>\<open>return\<close> that follows it.\<close>
fun range_scts :: "env \<Rightarrow> bytes list \<Rightarrow> MerkleTreeLeaf \<Rightarrow> status" where
  "range_scts c [] merkleLeaf = Err NoValidSCTInHandshake"
| "range_scts c (sct # scts) merkleLeaf =
     (case checkOneSCT c \<lparr>Val = sct\<rparr> merkleLeaf of
        Nil \<Rightarrow> Nil
      | Err err \<Rightarrow> range_scts c scts merkleLeaf)"

text \<open>The loop of \<^verbatim>\<open>checkCertSCTs\<close> over \<^verbatim>\<open>leaf.SCTList.SCTList\<close>, with the
  \<^verbatim>\<open>return\<close> that follows it.\<close>
fun range_SCTList :: "env \<Rightarrow> SerializedSCT list \<Rightarrow> MerkleTreeLeaf \<Rightarrow> status" where
  "range_SCTList c [] merkleLeaf = Err NoValidSCTInHandshake"
| "range_SCTList c (sct # scts) merkleLeaf =
     (case checkOneSCT c sct merkleLeaf of
        Nil \<Rightarrow> Nil
      | Err err \<Rightarrow> range_SCTList c scts merkleLeaf)"

definition checkTLSSCTs :: "env \<Rightarrow> bytes list \<Rightarrow> Certificate list \<Rightarrow> status outcome" where
  "checkTLSSCTs c scts chain =
     (if length scts = 0 then Returns (Err NoSCTsInHandshake)
      else
        (case ct_MerkleTreeLeafFromChain c chain X509LogEntryType 0 of
           Panic \<Rightarrow> Panic
         | Returns (Inl err) \<Rightarrow> Returns (Err (External err))
         | Returns (Inr merkleLeaf) \<Rightarrow> Returns (range_scts c scts merkleLeaf)))"

definition checkCertSCTs :: "env \<Rightarrow> Certificate list \<Rightarrow> status outcome" where
  "checkCertSCTs c chain =
     (case index chain 0 of
        Panic \<Rightarrow> Panic
      | Returns leaf \<Rightarrow>
          if length (SCTList leaf) = 0 then Returns (Err NoSCTsInLeaf)
          else if length chain < 2 then Returns (Err NoIssuerInChain)
          else
            (case index chain 1 of
               Panic \<Rightarrow> Panic
             | Returns issuer \<Rightarrow>
                 (case MerkleTreeLeafForEmbeddedSCT c [leaf, issuer] 0 of
                    Inl err \<Rightarrow> Returns (Err (External err))
                  | Inr merkleLeaf \<Rightarrow>
                      Returns (range_SCTList c (SCTList leaf) merkleLeaf))))"

definition checkOcspSCTs :: "env \<Rightarrow> bytes list \<Rightarrow> Certificate list \<Rightarrow> status outcome" where
  "checkOcspSCTs c scts chain =
     (case ct_MerkleTreeLeafFromChain c chain X509LogEntryType 0 of
        Panic \<Rightarrow> Panic
      | Returns (Inl err) \<Rightarrow> Returns (Err (External err))
      | Returns (Inr merkleLeaf) \<Rightarrow> Returns (range_scts c scts merkleLeaf))"

text \<open>\<open>state = None\<close> is the nil pointer. \<open>lastError\<close> is the local variable of the
  source; its first value is written out although every path overwrites it.\<close>
definition checkConnectionState :: "env \<Rightarrow> ConnectionState option \<Rightarrow> status outcome" where
  "checkConnectionState c state =
     (case state of
        None \<Rightarrow> Returns (Err NoConnectionState)
      | Some st \<Rightarrow>
          if length (PeerCertificates st) = 0 then Returns (Err NoPeerCertificates)
          else
            (case buildCertificateChain c (PeerCertificates st) of
               Inl err \<Rightarrow> Returns (Err (External err))
             | Inr chain \<Rightarrow>
                 (let lastError = NoSCTsFound in
                  case checkTLSSCTs c (SignedCertificateTimestamps st) chain of
                    Panic \<Rightarrow> Panic
                  | Returns Nil \<Rightarrow> Returns Nil
                  | Returns (Err err) \<Rightarrow>
                      (let lastError = err in
                       case checkCertSCTs c chain of
                         Panic \<Rightarrow> Panic
                       | Returns Nil \<Rightarrow> Returns Nil
                       | Returns (Err err) \<Rightarrow>
                           (let lastError = err in Returns (Err lastError))))))"

definition VerifyTLSSCTs :: "env \<Rightarrow> bytes \<Rightarrow> Certificate list \<Rightarrow> bool outcome" where
  "VerifyTLSSCTs c sct chain =
     (case ct_MerkleTreeLeafFromChain c chain X509LogEntryType 0 of
        Panic \<Rightarrow> Panic
      | Returns (Inl err) \<Rightarrow> Returns False
      | Returns (Inr merkleLeaf) \<Rightarrow>
          (case checkOneSCT c \<lparr>Val = sct\<rparr> merkleLeaf of
             Err err \<Rightarrow> Returns False
           | Nil \<Rightarrow> Returns True))"

definition VerifyCertSCTs :: "env \<Rightarrow> SerializedSCT \<Rightarrow> Certificate list \<Rightarrow> bool outcome" where
  "VerifyCertSCTs c sct chain =
     (case index chain 0 of
        Panic \<Rightarrow> Panic
      | Returns leaf \<Rightarrow>
          if length (SCTList leaf) = 0 then Returns False
          else if length chain < 2 then Returns False
          else
            (case index chain 1 of
               Panic \<Rightarrow> Panic
             | Returns issuer \<Rightarrow>
                 (case MerkleTreeLeafForEmbeddedSCT c [leaf, issuer] 0 of
                    Inl err \<Rightarrow> Returns False
                  | Inr merkleLeaf \<Rightarrow>
                      (case checkOneSCT c sct merkleLeaf of
                         Err err \<Rightarrow> Returns False
                       | Nil \<Rightarrow> Returns True))))"

definition VerifyOcspSCTs :: "env \<Rightarrow> bytes \<Rightarrow> Certificate list \<Rightarrow> bool outcome" where
  "VerifyOcspSCTs c sct chain =
     (case ct_MerkleTreeLeafFromChain c chain X509LogEntryType 0 of
        Panic \<Rightarrow> Panic
      | Returns (Inl err) \<Rightarrow> Returns False
      | Returns (Inr merkleLeaf) \<Rightarrow>
          (case checkOneSCT c \<lparr>Val = sct\<rparr> merkleLeaf of
             Err err \<Rightarrow> Returns False
           | Nil \<Rightarrow> Returns True))"

section \<open>A concrete environment\<close>

text \<open>
  One environment on which the checker can be run by hand. An SCT is two bytes, the log's
  key hash and a signature byte; the registry knows the logs \<open>[1]\<close> and \<open>[3]\<close>; no log
  info can be made for log \<open>[3]\<close>; the only signature that verifies is \<open>[7]\<close>; no
  inclusion proof is ever obtained; every log has a maximum merge delay of 24 hours; a
  certificate's DER bytes after the first list the key hashes of its embedded SCTs; the
  clock stands one hour after the timestamp of every SCT.
\<close>

definition demo_sct :: SignedCertificateTimestamp where
  "demo_sct = \<lparr>SCTVersion = 0, LogID = [1], Timestamp = 1600000000000,
     Extensions = [], Signature = [7]\<rparr>"

definition demo_log :: Log where
  "demo_log = \<lparr>Description = ''demo log'', Key = [9]\<rparr>"

definition broken_log :: Log where
  "broken_log = \<lparr>Description = ''broken log'', Key = []\<rparr>"

definition demo_cert :: "bytes \<Rightarrow> Certificate" where
  "demo_cert der = \<lparr>Raw = der, SCTList = map (\<lambda>k. \<lparr>Val = [k, 7]\<rparr>) (tl der)\<rparr>"

definition demo_env :: env where
  "demo_env =
     \<lparr>ll = [[1] \<mapsto> demo_log, [3] \<mapsto> broken_log],
      ExtractSCT = (\<lambda>x. case Val x of
          [k, s] \<Rightarrow> Inr (demo_sct\<lparr>LogID := [k], Signature := [s]\<rparr>)
        | _ \<Rightarrow> Inl ''malformed SCT''),
      newLogInfoFromLog = (\<lambda>l. if Key l = [] then Inl ''no key''
          else Inr \<lparr>InfoDescription = Description l, MMD = 24 * Hour\<rparr>),
      VerifySCTSignature = (\<lambda>li sct leaf.
          if Signature sct = [7] then None else Some ''signature mismatch''),
      VerifyInclusion = (\<lambda>li leaf ts. Inl ''no inclusion proof''),
      MerkleTreeLeafFromChain = (\<lambda>chain et ts. case chain of
          [] \<Rightarrow> Inl ''empty chain''
        | cert # _ \<Rightarrow> Inr \<lparr>LeafTimestamp = ts, LeafEntryType = et, SignedEntry = Raw cert\<rparr>),
      MerkleTreeLeafForEmbeddedSCT = (\<lambda>chain ts. case chain of
          [leaf, issuer] \<Rightarrow>
            Inr \<lparr>LeafTimestamp = ts, LeafEntryType = PrecertLogEntryType,
                 SignedEntry = Raw issuer @ Raw leaf\<rparr>
        | _ \<Rightarrow> Inl ''no issuer''),
      buildCertificateChain = (\<lambda>certs. Inr (map demo_cert certs)),
      Now = TimestampToTime 1600000000000 + Hour\<rparr>"

definition demo_leaf :: MerkleTreeLeaf where
  "demo_leaf = \<lparr>LeafTimestamp = 0, LeafEntryType = X509LogEntryType, SignedEntry = [48]\<rparr>"

section \<open>Auxiliary facts\<close>

subsection \<open>Timestamps and durations\<close>

lemma split_millis: "int (n div 1000) * 1000000000 + int (n mod 1000) * 1000000 = int n * 1000000"
proof -
  have "int n = int (n div 1000) * 1000 + int (n mod 1000)"
    by (simp add: zdiv_int zmod_int)
  then show ?thesis by simp
qed

lemma TimestampToTime_exact: "TimestampToTime ts = int (unat ts) * 1000000"
  unfolding TimestampToTime_def by (rule split_millis)

lemma time_Since_less_iff:
  "minDuration < m \<Longrightarrow> m \<le> maxDuration \<Longrightarrow> (time_Since now t < m) = (now - t < m)"
  by (auto simp: time_Since_def Let_def)

subsection \<open>The concrete environment, evaluated\<close>

lemma demo_env_fields:
  "ll demo_env = [[1] \<mapsto> demo_log, [3] \<mapsto> broken_log]"
  "ExtractSCT demo_env \<lparr>Val = [k, s]\<rparr> = Inr (demo_sct\<lparr>LogID := [k], Signature := [s]\<rparr>)"
  "ExtractSCT demo_env \<lparr>Val = [k]\<rparr> = Inl ''malformed SCT''"
  "newLogInfoFromLog demo_env demo_log = Inr \<lparr>InfoDescription = ''demo log'', MMD = 24 * Hour\<rparr>"
  "newLogInfoFromLog demo_env broken_log = Inl ''no key''"
  "VerifySCTSignature demo_env li sct leaf =
     (if Signature sct = [7] then None else Some ''signature mismatch'')"
  "VerifyInclusion demo_env li leaf ts = Inl ''no inclusion proof''"
  "MerkleTreeLeafFromChain demo_env (cert # chain) et ts =
     Inr \<lparr>LeafTimestamp = ts, LeafEntryType = et, SignedEntry = Raw cert\<rparr>"
  "MerkleTreeLeafForEmbeddedSCT demo_env [leaf_cert, issuer] ts =
     Inr \<lparr>LeafTimestamp = ts, LeafEntryType = PrecertLogEntryType,
          SignedEntry = Raw issuer @ Raw leaf_cert\<rparr>"
  "buildCertificateChain demo_env certs = Inr (map demo_cert certs)"
  "Now demo_env = TimestampToTime 1600000000000 + Hour"
  by (simp_all add: demo_env_def demo_log_def broken_log_def)

lemma demo_checkOneSCT:
  "checkOneSCT demo_env \<lparr>Val = [1, 7]\<rparr> leaf = Nil"
  "checkOneSCT demo_env \<lparr>Val = [2, 7]\<rparr> leaf = Err (NoLogFound [2])"
  "checkOneSCT demo_env \<lparr>Val = [3, 7]\<rparr> leaf = Err (NoLogClient ''broken log'')"
  "checkOneSCT demo_env \<lparr>Val = [1, 8]\<rparr> leaf = Err (External ''signature mismatch'')"
  "checkOneSCT demo_env \<lparr>Val = [1]\<rparr> leaf = Err (External ''malformed SCT'')"
  by (simp_all add: checkOneSCT_def demo_env_fields demo_sct_def
      time_Since_def TimestampToTime_def Hour_def minDuration_def maxDuration_def)
     (simp_all add: broken_log_def)

subsection \<open>The loops and the source checks\<close>

lemma range_scts_Nil_iff:
  "(range_scts c scts leaf = Nil) = (\<exists>s\<in>set scts. checkOneSCT c \<lparr>Val = s\<rparr> leaf = Nil)"
  by (induction scts) (auto split: status.splits)

lemma range_SCTList_Nil_iff:
  "(range_SCTList c scts leaf = Nil) = (\<exists>s\<in>set scts. checkOneSCT c s leaf = Nil)"
  by (induction scts) (auto split: status.splits)

lemma range_scts_result:
  "range_scts c scts leaf = Nil \<or> range_scts c scts leaf = Err NoValidSCTInHandshake"
  by (induction scts) (auto split: status.splits)

lemma range_SCTList_result:
  "range_SCTList c scts leaf = Nil \<or> range_SCTList c scts leaf = Err NoValidSCTInHandshake"
  by (induction scts) (auto split: status.splits)

lemma ct_MerkleTreeLeafFromChain_Panic_iff:
  "(ct_MerkleTreeLeafFromChain c chain X509LogEntryType ts = Panic) = (chain = [])"
  by (auto simp: ct_MerkleTreeLeafFromChain_def index_def)

lemma ct_MerkleTreeLeafFromChain_nonempty:
  "chain \<noteq> [] \<Longrightarrow>
   ct_MerkleTreeLeafFromChain c chain etype ts = Returns (MerkleTreeLeafFromChain c chain etype ts)"
  by (simp add: ct_MerkleTreeLeafFromChain_def index_def)

lemma checkTLSSCTs_nonempty:
  "chain \<noteq> [] \<Longrightarrow> checkTLSSCTs c scts chain =
     (if scts = [] then Returns (Err NoSCTsInHandshake)
      else (case MerkleTreeLeafFromChain c chain X509LogEntryType 0 of
              Inl err \<Rightarrow> Returns (Err (External err))
            | Inr merkleLeaf \<Rightarrow> Returns (range_scts c scts merkleLeaf)))"
  by (simp add: checkTLSSCTs_def ct_MerkleTreeLeafFromChain_nonempty split: sum.splits)

lemma checkOcspSCTs_nonempty:
  "chain \<noteq> [] \<Longrightarrow> checkOcspSCTs c scts chain =
     (case MerkleTreeLeafFromChain c chain X509LogEntryType 0 of
        Inl err \<Rightarrow> Returns (Err (External err))
      | Inr merkleLeaf \<Rightarrow> Returns (range_scts c scts merkleLeaf))"
  by (simp add: checkOcspSCTs_def ct_MerkleTreeLeafFromChain_nonempty split: sum.splits)

lemma checkTLSSCTs_Panic_iff: "(checkTLSSCTs c scts chain = Panic) = (scts \<noteq> [] \<and> chain = [])"
  by (cases "chain = []")
     (auto simp: checkTLSSCTs_nonempty checkTLSSCTs_def ct_MerkleTreeLeafFromChain_def index_def
       split: sum.splits)

lemma checkOcspSCTs_Panic_iff: "(checkOcspSCTs c scts chain = Panic) = (chain = [])"
  by (cases "chain = []")
     (auto simp: checkOcspSCTs_nonempty checkOcspSCTs_def ct_MerkleTreeLeafFromChain_def index_def
       split: sum.splits)

lemma checkTLSSCTs_Nil_iff:
  "(checkTLSSCTs c scts chain = Returns Nil) =
     (chain \<noteq> [] \<and>
      (\<exists>leaf. MerkleTreeLeafFromChain c chain X509LogEntryType 0 = Inr leaf \<and>
         (\<exists>s\<in>set scts. checkOneSCT c \<lparr>Val = s\<rparr> leaf = Nil)))"
proof (cases "chain = []")
  case True
  then show ?thesis
    by (simp add: checkTLSSCTs_def ct_MerkleTreeLeafFromChain_def index_def)
next
  case False
  then show ?thesis
    by (auto simp: checkTLSSCTs_nonempty range_scts_Nil_iff split: sum.splits)
qed

lemma checkOcspSCTs_Nil_iff:
  "(checkOcspSCTs c scts chain = Returns Nil) =
     (chain \<noteq> [] \<and>
      (\<exists>leaf. MerkleTreeLeafFromChain c chain X509LogEntryType 0 = Inr leaf \<and>
         (\<exists>s\<in>set scts. checkOneSCT c \<lparr>Val = s\<rparr> leaf = Nil)))"
proof (cases "chain = []")
  case True
  then show ?thesis
    by (simp add: checkOcspSCTs_def ct_MerkleTreeLeafFromChain_def index_def)
next
  case False
  then show ?thesis
    by (auto simp: checkOcspSCTs_nonempty range_scts_Nil_iff split: sum.splits)
qed

lemma checkCertSCTs_unfold:
  "chain \<noteq> [] \<Longrightarrow> checkCertSCTs c chain =
     (if SCTList (chain ! 0) = [] then Returns (Err NoSCTsInLeaf)
      else if length chain < 2 then Returns (Err NoIssuerInChain)
      else (case MerkleTreeLeafForEmbeddedSCT c [chain ! 0, chain ! 1] 0 of
              Inl err \<Rightarrow> Returns (Err (External err))
            | Inr merkleLeaf \<Rightarrow> Returns (range_SCTList c (SCTList (chain ! 0)) merkleLeaf)))"
  by (simp add: checkCertSCTs_def index_def)

lemma VerifyCertSCTs_unfold:
  "chain \<noteq> [] \<Longrightarrow> VerifyCertSCTs c sct chain =
     (if SCTList (chain ! 0) = [] then Returns False
      else if length chain < 2 then Returns False
      else (case MerkleTreeLeafForEmbeddedSCT c [chain ! 0, chain ! 1] 0 of
              Inl err \<Rightarrow> Returns False
            | Inr merkleLeaf \<Rightarrow> Returns (checkOneSCT c sct merkleLeaf = Nil)))"
  by (auto simp: VerifyCertSCTs_def index_def split: sum.splits status.splits)

lemma checkCertSCTs_Nil_iff:
  "chain \<noteq> [] \<Longrightarrow> (checkCertSCTs c chain = Returns Nil) =
     (2 \<le> length chain \<and>
      (\<exists>leaf. MerkleTreeLeafForEmbeddedSCT c [chain ! 0, chain ! 1] 0 = Inr leaf \<and>
         (\<exists>s\<in>set (SCTList (chain ! 0)). checkOneSCT c s leaf = Nil)))"
  by (auto simp: checkCertSCTs_unfold range_SCTList_Nil_iff split: sum.splits)

lemma checkConnectionState_chain:
  "PeerCertificates st \<noteq> [] \<Longrightarrow> buildCertificateChain c (PeerCertificates st) = Inr chain \<Longrightarrow>
   checkConnectionState c (Some st) =
     (case checkTLSSCTs c (SignedCertificateTimestamps st) chain of
        Panic \<Rightarrow> Panic
      | Returns Nil \<Rightarrow> Returns Nil
      | Returns (Err e) \<Rightarrow> checkCertSCTs c chain)"
  by (simp add: checkConnectionState_def split: status.splits outcome.splits)

lemma checkCertSCTs_Panic_iff: "(checkCertSCTs c chain = Panic) = (chain = [])"
  by (cases chain) (auto simp: checkCertSCTs_def index_def split: sum.splits)

lemma VerifyCertSCTs_Panic_iff: "(VerifyCertSCTs c sct chain = Panic) = (chain = [])"
  by (cases chain) (auto simp: VerifyCertSCTs_def index_def split: sum.splits status.splits)

lemma checkCertSCTs_not_NoSCTsFound: "checkCertSCTs c chain \<noteq> Returns (Err NoSCTsFound)"
proof (cases "chain = []")
  case True
  then show ?thesis by (simp add: checkCertSCTs_def index_def)
next
  case False
  have "range_SCTList c scts leaf \<noteq> Err NoSCTsFound" for scts leaf
    using range_SCTList_result [of c scts leaf] by auto
  with False show ?thesis
    by (simp add: checkCertSCTs_unfold split: sum.splits)
qed

lemma VerifyCertSCTs_True_iff:
  "chain \<noteq> [] \<Longrightarrow> (VerifyCertSCTs c s chain = Returns True) =
     (SCTList (chain ! 0) \<noteq> [] \<and> 2 \<le> length chain \<and>
      (\<exists>leaf. MerkleTreeLeafForEmbeddedSCT c [chain ! 0, chain ! 1] 0 = Inr leaf \<and>
         checkOneSCT c s leaf = Nil))"
  by (cases "MerkleTreeLeafForEmbeddedSCT c [chain ! 0, chain ! 1] 0")
     (auto simp: VerifyCertSCTs_unfold)

lemma VerifyTLSSCTs_nonempty:
  "chain \<noteq> [] \<Longrightarrow> VerifyTLSSCTs c s chain =
     Returns (\<exists>leaf. MerkleTreeLeafFromChain c chain X509LogEntryType 0 = Inr leaf \<and>
                checkOneSCT c \<lparr>Val = s\<rparr> leaf = Nil)"
  by (auto simp: VerifyTLSSCTs_def ct_MerkleTreeLeafFromChain_nonempty
      split: sum.splits status.splits)

lemma VerifyTLSSCTs_empty: "VerifyTLSSCTs c s [] = Panic"
  by (simp add: VerifyTLSSCTs_def ct_MerkleTreeLeafFromChain_def index_def)

lemma VerifyOcspSCTs_nonempty:
  "chain \<noteq> [] \<Longrightarrow> VerifyOcspSCTs c s chain =
     Returns (\<exists>leaf. MerkleTreeLeafFromChain c chain X509LogEntryType 0 = Inr leaf \<and>
                checkOneSCT c \<lparr>Val = s\<rparr> leaf = Nil)"
  by (auto simp: VerifyOcspSCTs_def ct_MerkleTreeLeafFromChain_nonempty
      split: sum.splits status.splits)

lemma VerifyOcspSCTs_empty: "VerifyOcspSCTs c s [] = Panic"
  by (simp add: VerifyOcspSCTs_def ct_MerkleTreeLeafFromChain_def index_def)

section \<open>Claims\<close>

text \<open>
  C1. In \<open>checkOneSCT\<close>, when the SCT deserialises, its log is known, the signature verifies
  and \<^verbatim>\<open>VerifyInclusion\<close> returns an error (no proof obtainable, or the proof check
  fails), the check succeeds exactly when the age \<^verbatim>\<open>time.Since(TimestampToTime(sct.Timestamp))\<close>
  is strictly less than the log's maximum merge delay, and otherwise fails with the
  "failed to verify inclusion" error (InclusionFailedStale). The age is the saturated
  Duration the code computes; for every maximum merge delay that an int64 holds, the least
  one apart, it decides the same as the exact difference of now and the timestamp. With a maximum merge
  delay of 24 hours and an SCT timestamped at T, the check at T + 1h succeeds and the check
  at T + 25h fails with that error.
\<close>
theorem checkOneSCT_mmd_freshness:
  assumes "ExtractSCT c x = Inr sct"
    and "ll c (LogID sct) = Some ctLog"
    and "newLogInfoFromLog c ctLog = Inr logInfo"
    and "VerifySCTSignature c logInfo sct leaf = None"
    and "VerifyInclusion c logInfo leaf (Timestamp sct) = Inl e"
  shows "(checkOneSCT c x leaf = Nil) =
           (time_Since (Now c) (TimestampToTime (Timestamp sct)) < MMD logInfo)
       \<and> (checkOneSCT c x leaf =
            (if time_Since (Now c) (TimestampToTime (Timestamp sct)) < MMD logInfo
             then Nil else Err (InclusionFailed (Description ctLog))))
       \<and> (minDuration < MMD logInfo \<and> MMD logInfo \<le> maxDuration \<longrightarrow>
            (checkOneSCT c x leaf = Nil) =
              (Now c - int (unat (Timestamp sct)) * 1000000 < MMD logInfo))
       \<and> (MMD logInfo = 24 * Hour \<and> Now c = TimestampToTime (Timestamp sct) + 1 * Hour \<longrightarrow>
            checkOneSCT c x leaf = Nil)
       \<and> (MMD logInfo = 24 * Hour \<and> Now c = TimestampToTime (Timestamp sct) + 25 * Hour \<longrightarrow>
            checkOneSCT c x leaf = Err (InclusionFailed (Description ctLog)))"
proof -
  let ?age = "time_Since (Now c) (TimestampToTime (Timestamp sct))"
  have res: "checkOneSCT c x leaf =
      (if ?age < MMD logInfo then Nil else Err (InclusionFailed (Description ctLog)))"
    using assms by (simp add: checkOneSCT_def Let_def not_less)
  have iff: "(checkOneSCT c x leaf = Nil) = (?age < MMD logInfo)"
    by (simp add: res)
  have exact: "(checkOneSCT c x leaf = Nil) =
      (Now c - int (unat (Timestamp sct)) * 1000000 < MMD logInfo)"
    if "minDuration < MMD logInfo \<and> MMD logInfo \<le> maxDuration"
    using that iff time_Since_less_iff [of "MMD logInfo" "Now c" "TimestampToTime (Timestamp sct)"]
    by (simp add: TimestampToTime_exact)
  have h1: "checkOneSCT c x leaf = Nil"
    if "MMD logInfo = 24 * Hour \<and> Now c = TimestampToTime (Timestamp sct) + 1 * Hour"
    using that by (simp add: res time_Since_def Hour_def minDuration_def maxDuration_def)
  have h25: "checkOneSCT c x leaf = Err (InclusionFailed (Description ctLog))"
    if "MMD logInfo = 24 * Hour \<and> Now c = TimestampToTime (Timestamp sct) + 25 * Hour"
    using that by (simp add: res time_Since_def Hour_def minDuration_def maxDuration_def)
  from res iff exact h1 h25 show ?thesis by blast
qed

text \<open>
  In the concrete environment the log has a maximum merge delay of 24 hours and no inclusion
  proof is obtained: the SCT \<open>[1, 7]\<close> passes one hour after its timestamp and is stale
  25 hours after it.
\<close>
theorem checkOneSCT_mmd_freshness_witness:
  "checkOneSCT demo_env \<lparr>Val = [1, 7]\<rparr> demo_leaf = Nil
   \<and> checkOneSCT (demo_env\<lparr>Now := TimestampToTime 1600000000000 + 25 * Hour\<rparr>)
        \<lparr>Val = [1, 7]\<rparr> demo_leaf = Err (InclusionFailed ''demo log'')"
proof -
  let ?late = "demo_env\<lparr>Now := TimestampToTime 1600000000000 + 25 * Hour\<rparr>"
  let ?li = "\<lparr>InfoDescription = ''demo log'', MMD = 24 * Hour\<rparr>"
  let ?x = "\<lparr>Val = [1, 7]\<rparr>"
  have p1: "ExtractSCT c ?x = Inr demo_sct"
    and p2: "ll c (LogID demo_sct) = Some demo_log"
    and p3: "newLogInfoFromLog c demo_log = Inr ?li"
    and p4: "VerifySCTSignature c ?li demo_sct demo_leaf = None"
    and p5: "VerifyInclusion c ?li demo_leaf (Timestamp demo_sct) = Inl ''no inclusion proof''"
    if "c = demo_env \<or> c = ?late" for c
    using that by (auto simp: demo_env_fields demo_sct_def)
  have early: "MMD ?li = 24 * Hour \<and>
      Now demo_env = TimestampToTime (Timestamp demo_sct) + 1 * Hour"
    and late: "MMD ?li = 24 * Hour \<and>
      Now ?late = TimestampToTime (Timestamp demo_sct) + 25 * Hour"
    by (simp_all add: demo_env_fields demo_sct_def)
  note within = checkOneSCT_mmd_freshness [OF p1 p2 p3 p4 p5, of demo_env]
  note stale = checkOneSCT_mmd_freshness [OF p1 p2 p3 p4 p5, of ?late]
  have a: "checkOneSCT demo_env ?x demo_leaf = Nil"
    using within early by blast
  have b: "checkOneSCT ?late ?x demo_leaf = Err (InclusionFailed (Description demo_log))"
    using stale late by blast
  from a b show ?thesis by (simp add: demo_log_def)
qed

text \<open>
  C2 (amended). For a connection state with peer certificates whose chain
  \<^verbatim>\<open>buildCertificateChain\<close> returns and is not empty, \<open>checkConnectionState\<close> succeeds
  exactly when some SCT of the handshake list passes \<open>checkOneSCT\<close> (deserialisation, log
  lookup, log info, signature, inclusion or freshness) against the leaf that
  \<^verbatim>\<open>MerkleTreeLeafFromChain\<close> builds, or the chain has an issuer and some SCT embedded
  in the leaf certificate passes \<open>checkOneSCT\<close> against the leaf that
  \<^verbatim>\<open>MerkleTreeLeafForEmbeddedSCT\<close> builds; so no failing SCT or source before it keeps
  a passing SCT from making the check succeed. An SCT that names an unknown log fails with the
  "no log found" error (UnknownLog) and the loop goes on with the SCTs after it. The OCSP
  response of the state is not an evidence source: the result does not depend on it.
\<close>
theorem checkConnectionState_success_iff:
  assumes "PeerCertificates st \<noteq> []"
    and "buildCertificateChain c (PeerCertificates st) = Inr chain"
    and "chain \<noteq> []"
  shows "(checkConnectionState c (Some st) = Returns Nil) =
           ((\<exists>s\<in>set (SignedCertificateTimestamps st). \<exists>leaf.
               MerkleTreeLeafFromChain c chain X509LogEntryType 0 = Inr leaf \<and>
               checkOneSCT c \<lparr>Val = s\<rparr> leaf = Nil)
            \<or> (2 \<le> length chain \<and>
                (\<exists>s\<in>set (SCTList (chain ! 0)). \<exists>leaf.
                   MerkleTreeLeafForEmbeddedSCT c [chain ! 0, chain ! 1] 0 = Inr leaf \<and>
                   checkOneSCT c s leaf = Nil)))
       \<and> (ExtractSCT c \<lparr>Val = s0\<rparr> = Inr sct \<and> ll c (LogID sct) = None \<longrightarrow>
            checkOneSCT c \<lparr>Val = s0\<rparr> leaf0 = Err (NoLogFound (LogID sct)) \<and>
            range_scts c (s0 # rest) leaf0 = range_scts c rest leaf0)
       \<and> (ExtractSCT c x = Inr sct \<and> ll c (LogID sct) = None \<longrightarrow>
            checkOneSCT c x leaf0 = Err (NoLogFound (LogID sct)) \<and>
            range_SCTList c (x # others) leaf0 = range_SCTList c others leaf0)
       \<and> checkConnectionState c (Some (st\<lparr>OCSPResponse := r\<rparr>)) =
           checkConnectionState c (Some st)"
proof -
  have iff: "(checkConnectionState c (Some st) = Returns Nil) =
           ((\<exists>s\<in>set (SignedCertificateTimestamps st). \<exists>leaf.
               MerkleTreeLeafFromChain c chain X509LogEntryType 0 = Inr leaf \<and>
               checkOneSCT c \<lparr>Val = s\<rparr> leaf = Nil)
            \<or> (2 \<le> length chain \<and>
                (\<exists>s\<in>set (SCTList (chain ! 0)). \<exists>leaf.
                   MerkleTreeLeafForEmbeddedSCT c [chain ! 0, chain ! 1] 0 = Inr leaf \<and>
                   checkOneSCT c s leaf = Nil)))"
  proof -
    let ?tls = "checkTLSSCTs c (SignedCertificateTimestamps st) chain"
    have returns: "?tls \<noteq> Panic"
      using assms(3) by (simp add: checkTLSSCTs_Panic_iff)
    have nil: "(?tls = Returns Nil) =
        (\<exists>leaf. MerkleTreeLeafFromChain c chain X509LogEntryType 0 = Inr leaf \<and>
          (\<exists>s\<in>set (SignedCertificateTimestamps st). checkOneSCT c \<lparr>Val = s\<rparr> leaf = Nil))"
      using assms(3) by (simp add: checkTLSSCTs_Nil_iff)
    show ?thesis
    proof (cases "?tls = Returns Nil")
      case True
      with nil show ?thesis
        by (simp add: checkConnectionState_chain [OF assms(1,2)]) blast
    next
      case False
      with returns obtain e where "?tls = Returns (Err e)"
        by (metis outcome.exhaust status.exhaust)
      with False nil show ?thesis
        by (simp add: checkConnectionState_chain [OF assms(1,2)]
            checkCertSCTs_Nil_iff [OF assms(3)]) blast
    qed
  qed
  have skip1: "checkOneSCT c \<lparr>Val = s0\<rparr> leaf0 = Err (NoLogFound (LogID sct)) \<and>
      range_scts c (s0 # rest) leaf0 = range_scts c rest leaf0"
    if "ExtractSCT c \<lparr>Val = s0\<rparr> = Inr sct \<and> ll c (LogID sct) = None"
  proof -
    from that have "checkOneSCT c \<lparr>Val = s0\<rparr> leaf0 = Err (NoLogFound (LogID sct))"
      by (simp add: checkOneSCT_def)
    then show ?thesis by simp
  qed
  have skip2: "checkOneSCT c x leaf0 = Err (NoLogFound (LogID sct)) \<and>
      range_SCTList c (x # others) leaf0 = range_SCTList c others leaf0"
    if "ExtractSCT c x = Inr sct \<and> ll c (LogID sct) = None"
  proof -
    from that have "checkOneSCT c x leaf0 = Err (NoLogFound (LogID sct))"
      by (simp add: checkOneSCT_def)
    then show ?thesis by simp
  qed
  have ocsp: "checkConnectionState c (Some (st\<lparr>OCSPResponse := r\<rparr>)) =
      checkConnectionState c (Some st)"
    by (simp add: checkConnectionState_def split: sum.splits)
  from iff skip1 skip2 ocsp show ?thesis by blast
qed

text \<open>
  Two successes in the concrete environment: a handshake list whose first SCT names the
  unknown log \<open>[2]\<close> and whose second SCT is valid; and a handshake list with a bad signature
  followed by embedded SCTs, the first for the unknown log, the second valid.
\<close>
theorem checkConnectionState_success_iff_witness:
  "checkConnectionState demo_env
     (Some \<lparr>PeerCertificates = [[48], [49]], SignedCertificateTimestamps = [[2, 7], [1, 7]],
            OCSPResponse = []\<rparr>) = Returns Nil
   \<and> checkConnectionState demo_env
     (Some \<lparr>PeerCertificates = [[48, 2, 1], [49]], SignedCertificateTimestamps = [[1, 8]],
            OCSPResponse = []\<rparr>) = Returns Nil
   \<and> checkOneSCT demo_env \<lparr>Val = [2, 7]\<rparr> demo_leaf = Err (NoLogFound [2])
   \<and> range_scts demo_env [[2, 7], [1, 7]] demo_leaf = range_scts demo_env [[1, 7]] demo_leaf"
proof -
  let ?a = "\<lparr>PeerCertificates = [[48], [49]], SignedCertificateTimestamps = [[2, 7], [1, 7]],
            OCSPResponse = []\<rparr>"
  let ?b = "\<lparr>PeerCertificates = [[48, 2, 1], [49]], SignedCertificateTimestamps = [[1, 8]],
            OCSPResponse = []\<rparr>"
  have a: "checkConnectionState demo_env (Some ?a) = Returns Nil"
    using checkConnectionState_success_iff [of ?a demo_env "map demo_cert [[48], [49]]",
        THEN conjunct1]
    by (simp add: demo_env_fields demo_checkOneSCT)
  have b: "checkConnectionState demo_env (Some ?b) = Returns Nil"
    using checkConnectionState_success_iff [of ?b demo_env "map demo_cert [[48, 2, 1], [49]]",
        THEN conjunct1]
    by (simp add: demo_env_fields demo_checkOneSCT demo_cert_def)
  have c: "checkOneSCT demo_env \<lparr>Val = [2, 7]\<rparr> demo_leaf = Err (NoLogFound [2])
      \<and> range_scts demo_env [[2, 7], [1, 7]] demo_leaf = range_scts demo_env [[1, 7]] demo_leaf"
    using checkConnectionState_success_iff [where st = ?a and c = demo_env
        and chain = "map demo_cert [[48], [49]]" and ?s0.0 = "[2, 7]"
        and sct = "demo_sct\<lparr>LogID := [2], Signature := [7]\<rparr>" and ?leaf0.0 = demo_leaf
        and rest = "[[1, 7]]"]
    by (simp add: demo_env_fields)
  from a b c show ?thesis by simp
qed

text \<open>
  The claim with its third source fails: the SCT \<open>[1, 7]\<close> passes against the leaf that the
  OCSP path builds (\<open>checkOcspSCTs\<close> accepts it), the state carries it as its OCSP response,
  the handshake and the leaf certificate carry no SCT, and the connection check fails.
\<close>
theorem checkConnectionState_success_iff_counterexample:
  "buildCertificateChain demo_env [[48]] = Inr [demo_cert [48]]
   \<and> MerkleTreeLeafFromChain demo_env [demo_cert [48]] X509LogEntryType 0 = Inr demo_leaf
   \<and> checkOneSCT demo_env \<lparr>Val = [1, 7]\<rparr> demo_leaf = Nil
   \<and> checkOcspSCTs demo_env [[1, 7]] [demo_cert [48]] = Returns Nil
   \<and> checkConnectionState demo_env
        (Some \<lparr>PeerCertificates = [[48]], SignedCertificateTimestamps = [],
               OCSPResponse = [1, 7]\<rparr>) = Returns (Err NoSCTsInLeaf)"
  by (simp add: checkConnectionState_def checkTLSSCTs_def checkCertSCTs_def checkOcspSCTs_def
      ct_MerkleTreeLeafFromChain_def index_def demo_env_fields demo_checkOneSCT demo_cert_def
      demo_leaf_def)

text \<open>
  C3 (amended). \<open>checkConnectionState\<close> tries the handshake SCTs first and the SCTs embedded
  in the leaf certificate second, and nothing after them: when the handshake source succeeds
  the check succeeds; when it fails, its error is replaced by the outcome of the embedded
  source, which is the outcome of the whole check. For every chain of length 1 whose leaf
  certificate carries at least one embedded SCT, the embedded source fails with "no issuer
  certificate in chain", and with a failed handshake source this is the error of the whole
  check. The OCSP response is never read.
\<close>
theorem embedded_source_order:
  assumes "PeerCertificates st \<noteq> []"
    and "buildCertificateChain c (PeerCertificates st) = Inr chain"
    and "chain \<noteq> []"
  shows "(checkTLSSCTs c (SignedCertificateTimestamps st) chain = Returns Nil \<longrightarrow>
            checkConnectionState c (Some st) = Returns Nil)
       \<and> (checkTLSSCTs c (SignedCertificateTimestamps st) chain = Returns (Err e) \<longrightarrow>
            checkConnectionState c (Some st) = checkCertSCTs c chain)
       \<and> (length chain = 1 \<and> SCTList (chain ! 0) \<noteq> [] \<longrightarrow>
            checkCertSCTs c chain = Returns (Err NoIssuerInChain))
       \<and> (length chain = 1 \<and> SCTList (chain ! 0) \<noteq> [] \<and>
            checkTLSSCTs c (SignedCertificateTimestamps st) chain = Returns (Err e) \<longrightarrow>
            checkConnectionState c (Some st) = Returns (Err NoIssuerInChain))
       \<and> checkConnectionState c (Some (st\<lparr>OCSPResponse := r\<rparr>)) =
           checkConnectionState c (Some st)"
proof -
  note unfolded = checkConnectionState_chain [OF assms(1,2)]
  have first: "checkConnectionState c (Some st) = Returns Nil"
    if "checkTLSSCTs c (SignedCertificateTimestamps st) chain = Returns Nil"
    using that by (simp add: unfolded)
  have second: "checkConnectionState c (Some st) = checkCertSCTs c chain"
    if "checkTLSSCTs c (SignedCertificateTimestamps st) chain = Returns (Err e)"
    using that by (simp add: unfolded)
  have no_issuer: "checkCertSCTs c chain = Returns (Err NoIssuerInChain)"
    if "length chain = 1 \<and> SCTList (chain ! 0) \<noteq> []"
    using that by (simp add: checkCertSCTs_unfold [OF assms(3)])
  have ocsp: "checkConnectionState c (Some (st\<lparr>OCSPResponse := r\<rparr>)) =
      checkConnectionState c (Some st)"
    by (simp add: checkConnectionState_def split: sum.splits)
  from first second no_issuer ocsp show ?thesis by simp
qed

text \<open>
  In the concrete environment: a one-certificate chain with a valid handshake SCT succeeds;
  the same chain with a bad handshake signature and an embedded SCT ends with the no-issuer
  error.
\<close>
theorem embedded_source_order_witness:
  "checkConnectionState demo_env
     (Some \<lparr>PeerCertificates = [[48, 1]], SignedCertificateTimestamps = [[1, 7]],
            OCSPResponse = []\<rparr>) = Returns Nil
   \<and> checkCertSCTs demo_env [demo_cert [48, 1]] = Returns (Err NoIssuerInChain)
   \<and> checkConnectionState demo_env
     (Some \<lparr>PeerCertificates = [[48, 1]], SignedCertificateTimestamps = [[1, 8]],
            OCSPResponse = [1, 7]\<rparr>) = Returns (Err NoIssuerInChain)"
proof -
  let ?a = "\<lparr>PeerCertificates = [[48, 1]], SignedCertificateTimestamps = [[1, 7]],
            OCSPResponse = []\<rparr>"
  let ?d = "\<lparr>PeerCertificates = [[48, 1]], SignedCertificateTimestamps = [[1, 8]],
            OCSPResponse = [1, 7]\<rparr>"
  let ?chain = "[demo_cert [48, 1]]"
  have tls_a: "checkTLSSCTs demo_env (SignedCertificateTimestamps ?a) ?chain = Returns Nil"
    and tls_d: "checkTLSSCTs demo_env (SignedCertificateTimestamps ?d) ?chain =
      Returns (Err NoValidSCTInHandshake)"
    by (simp_all add: checkTLSSCTs_nonempty demo_env_fields demo_checkOneSCT)
  have a: "checkConnectionState demo_env (Some ?a) = Returns Nil"
    using embedded_source_order [of ?a demo_env ?chain] tls_a
    by (simp add: demo_env_fields)
  have b: "checkCertSCTs demo_env ?chain = Returns (Err NoIssuerInChain)"
    using embedded_source_order [of ?d demo_env ?chain]
    by (simp add: demo_env_fields) (simp add: demo_cert_def)
  have d: "checkConnectionState demo_env (Some ?d) = Returns (Err NoIssuerInChain)"
    using embedded_source_order [of ?d demo_env ?chain NoValidSCTInHandshake] tls_d
    by (simp add: demo_env_fields) (simp add: demo_cert_def)
  from a b d show ?thesis by simp
qed

text \<open>
  A chain of length 1 whose leaf has no embedded SCT fails the embedded source with "no SCTs
  in leaf certificate", not with the no-issuer error; and a one-certificate chain with an
  embedded SCT, whose OCSP response carries an SCT that \<open>checkOcspSCTs\<close> accepts, ends with
  the no-issuer error: nothing falls through to an OCSP source.
\<close>
theorem embedded_source_order_counterexample:
  "length [demo_cert [48]] = 1
   \<and> checkCertSCTs demo_env [demo_cert [48]] = Returns (Err NoSCTsInLeaf)
   \<and> buildCertificateChain demo_env [[48, 1]] = Inr [demo_cert [48, 1]]
   \<and> checkOcspSCTs demo_env [[1, 7]] [demo_cert [48, 1]] = Returns Nil
   \<and> checkConnectionState demo_env
        (Some \<lparr>PeerCertificates = [[48, 1]], SignedCertificateTimestamps = [],
               OCSPResponse = [1, 7]\<rparr>) = Returns (Err NoIssuerInChain)"
  by (simp add: checkConnectionState_def checkTLSSCTs_def checkCertSCTs_def checkOcspSCTs_def
      ct_MerkleTreeLeafFromChain_def index_def demo_env_fields demo_checkOneSCT demo_cert_def)

text \<open>
  C4 (amended). When a source has SCTs, its leaf is built and every SCT fails, the error of
  the source is the fixed "no valid SCT in SSL handshake" (for the handshake and for the
  embedded source alike), whatever the errors of the single SCTs were: those are dropped in
  the loop. When the whole check fails, the error returned is the one of the source
  evaluated last, the embedded source; the error of the handshake source is overwritten.
\<close>
theorem source_failure_reason:
  "(scts \<noteq> [] \<and> ct_MerkleTreeLeafFromChain c chain X509LogEntryType 0 = Returns (Inr leaf) \<and>
      (\<forall>s\<in>set scts. checkOneSCT c \<lparr>Val = s\<rparr> leaf \<noteq> Nil) \<longrightarrow>
      checkTLSSCTs c scts chain = Returns (Err NoValidSCTInHandshake))
   \<and> (2 \<le> length chain \<and> SCTList (chain ! 0) \<noteq> [] \<and>
      MerkleTreeLeafForEmbeddedSCT c [chain ! 0, chain ! 1] 0 = Inr leaf \<and>
      (\<forall>s\<in>set (SCTList (chain ! 0)). checkOneSCT c s leaf \<noteq> Nil) \<longrightarrow>
      checkCertSCTs c chain = Returns (Err NoValidSCTInHandshake))
   \<and> (PeerCertificates st \<noteq> [] \<and> buildCertificateChain c (PeerCertificates st) = Inr chain \<and>
      checkTLSSCTs c (SignedCertificateTimestamps st) chain = Returns (Err e1) \<and>
      checkCertSCTs c chain = Returns (Err e2) \<longrightarrow>
      checkConnectionState c (Some st) = Returns (Err e2))"
proof -
  have tls: "checkTLSSCTs c scts chain = Returns (Err NoValidSCTInHandshake)"
    if "scts \<noteq> [] \<and> ct_MerkleTreeLeafFromChain c chain X509LogEntryType 0 = Returns (Inr leaf) \<and>
      (\<forall>s\<in>set scts. checkOneSCT c \<lparr>Val = s\<rparr> leaf \<noteq> Nil)"
    using that range_scts_result [of c scts leaf] range_scts_Nil_iff [of c scts leaf]
    by (auto simp: checkTLSSCTs_def)
  have cert: "checkCertSCTs c chain = Returns (Err NoValidSCTInHandshake)"
    if "2 \<le> length chain \<and> SCTList (chain ! 0) \<noteq> [] \<and>
      MerkleTreeLeafForEmbeddedSCT c [chain ! 0, chain ! 1] 0 = Inr leaf \<and>
      (\<forall>s\<in>set (SCTList (chain ! 0)). checkOneSCT c s leaf \<noteq> Nil)"
  proof -
    from that have "chain \<noteq> []" by auto
    from checkCertSCTs_unfold [OF this] that
      range_SCTList_result [of c "SCTList (chain ! 0)" leaf]
      range_SCTList_Nil_iff [of c "SCTList (chain ! 0)" leaf]
    show ?thesis by auto
  qed
  have whole: "checkConnectionState c (Some st) = Returns (Err e2)"
    if "PeerCertificates st \<noteq> [] \<and> buildCertificateChain c (PeerCertificates st) = Inr chain \<and>
      checkTLSSCTs c (SignedCertificateTimestamps st) chain = Returns (Err e1) \<and>
      checkCertSCTs c chain = Returns (Err e2)"
    using that by (simp add: checkConnectionState_chain)
  from tls cert whole show ?thesis by blast
qed

text \<open>
  In the concrete environment: a handshake list with an unknown log and a bad signature, an
  embedded list with an unknown log, and a state whose handshake error ("no valid SCT") is
  overwritten by the embedded source's "no SCTs in leaf certificate".
\<close>
theorem source_failure_reason_witness:
  "checkTLSSCTs demo_env [[2, 7], [1, 8]] [demo_cert [48]] = Returns (Err NoValidSCTInHandshake)
   \<and> checkCertSCTs demo_env [demo_cert [48, 2], demo_cert [49]] =
       Returns (Err NoValidSCTInHandshake)
   \<and> checkConnectionState demo_env
        (Some \<lparr>PeerCertificates = [[48]], SignedCertificateTimestamps = [[1, 8]],
               OCSPResponse = []\<rparr>) = Returns (Err NoSCTsInLeaf)"
proof -
  let ?st = "\<lparr>PeerCertificates = [[48]], SignedCertificateTimestamps = [[1, 8]],
               OCSPResponse = []\<rparr>"
  have a: "checkTLSSCTs demo_env [[2, 7], [1, 8]] [demo_cert [48]] =
      Returns (Err NoValidSCTInHandshake)"
    using source_failure_reason [where scts = "[[2, 7], [1, 8]]" and c = demo_env
        and chain = "[demo_cert [48]]"
        and leaf = "\<lparr>LeafTimestamp = 0, LeafEntryType = X509LogEntryType,
                     SignedEntry = Raw (demo_cert [48])\<rparr>"]
    by (simp add: ct_MerkleTreeLeafFromChain_nonempty demo_env_fields demo_checkOneSCT)
  have b: "checkCertSCTs demo_env [demo_cert [48, 2], demo_cert [49]] =
       Returns (Err NoValidSCTInHandshake)"
    using source_failure_reason [where c = demo_env
        and chain = "[demo_cert [48, 2], demo_cert [49]]"
        and leaf = "\<lparr>LeafTimestamp = 0, LeafEntryType = PrecertLogEntryType,
                     SignedEntry = Raw (demo_cert [49]) @ Raw (demo_cert [48, 2])\<rparr>"]
    by (simp add: demo_env_fields) (simp add: demo_cert_def demo_checkOneSCT)
  have tls: "checkTLSSCTs demo_env (SignedCertificateTimestamps ?st) [demo_cert [48]] =
      Returns (Err NoValidSCTInHandshake)"
    and cert: "checkCertSCTs demo_env [demo_cert [48]] = Returns (Err NoSCTsInLeaf)"
    by (simp_all add: checkTLSSCTs_nonempty checkCertSCTs_def index_def demo_env_fields
        demo_checkOneSCT demo_cert_def)
  have c: "checkConnectionState demo_env (Some ?st) = Returns (Err NoSCTsInLeaf)"
    using source_failure_reason [where c = demo_env and st = ?st and chain = "[demo_cert [48]]"
        and ?e1.0 = NoValidSCTInHandshake and ?e2.0 = NoSCTsInLeaf] tls cert
    by (simp add: demo_env_fields)
  from a b c show ?thesis by simp
qed

text \<open>
  The only SCT of the handshake list fails with the "no log found" error, and the error of
  the source is "no valid SCT in SSL handshake": the last failure of an SCT is not what the
  source reports.
\<close>
theorem source_failure_reason_counterexample:
  "MerkleTreeLeafFromChain demo_env [demo_cert [48]] X509LogEntryType 0 = Inr demo_leaf
   \<and> checkOneSCT demo_env \<lparr>Val = [2, 7]\<rparr> demo_leaf = Err (NoLogFound [2])
   \<and> checkTLSSCTs demo_env [[2, 7]] [demo_cert [48]] = Returns (Err NoValidSCTInHandshake)"
  by (simp add: checkTLSSCTs_nonempty demo_env_fields demo_checkOneSCT demo_cert_def demo_leaf_def)

text \<open>
  C5. A call with a nil connection state returns "no TLS connection state", and a call
  with a state whose peer-certificate list is empty returns "no peer certificates in TLS
  connection state"; this holds for every environment and every SCT list, handshake
  or OCSP, of the state, so no evidence source has a say in it.
\<close>
theorem checkConnectionState_preconditions:
  "checkConnectionState c None = Returns (Err NoConnectionState)
   \<and> (PeerCertificates st = [] \<longrightarrow>
        checkConnectionState c (Some st) = Returns (Err NoPeerCertificates))"
  by (simp add: checkConnectionState_def)

text \<open>
  In the concrete environment, a state without peer certificates fails although its
  handshake list holds a valid SCT.
\<close>
theorem checkConnectionState_preconditions_witness:
  "checkConnectionState demo_env None = Returns (Err NoConnectionState)
   \<and> checkConnectionState demo_env
        (Some \<lparr>PeerCertificates = [], SignedCertificateTimestamps = [[1, 7]],
               OCSPResponse = [1, 7]\<rparr>) = Returns (Err NoPeerCertificates)"
  using checkConnectionState_preconditions [of demo_env
      "\<lparr>PeerCertificates = [], SignedCertificateTimestamps = [[1, 7]], OCSPResponse = [1, 7]\<rparr>"]
  by simp

text \<open>
  C6 (amended). \<open>checkOneSCT\<close> judges an SCT in this order: when \<^verbatim>\<open>ExtractSCT\<close> fails,
  its error is returned (MalformedSCT); otherwise, when the log list has no log for the
  SCT's key hash, the "no log found" error (UnknownLog); otherwise, when
  \<^verbatim>\<open>newLogInfoFromLog\<close> fails for that log, the "could not create client for log"
  error, with no signature checked; otherwise, when \<^verbatim>\<open>VerifySCTSignature\<close> of the log
  info returns an error, that error (SignatureMismatch). The result depends on the inclusion
  check and on the clock only when all four steps have passed.
\<close>
theorem checkOneSCT_order:
  "(ExtractSCT c x = Inl e \<longrightarrow> checkOneSCT c x leaf = Err (External e))
   \<and> (ExtractSCT c x = Inr sct \<and> ll c (LogID sct) = None \<longrightarrow>
        checkOneSCT c x leaf = Err (NoLogFound (LogID sct)))
   \<and> (ExtractSCT c x = Inr sct \<and> ll c (LogID sct) = Some ctLog \<and>
        newLogInfoFromLog c ctLog = Inl e \<longrightarrow>
        checkOneSCT c x leaf = Err (NoLogClient (Description ctLog)))
   \<and> (ExtractSCT c x = Inr sct \<and> ll c (LogID sct) = Some ctLog \<and>
        newLogInfoFromLog c ctLog = Inr logInfo \<and>
        VerifySCTSignature c logInfo sct leaf = Some e \<longrightarrow>
        checkOneSCT c x leaf = Err (External e))
   \<and> (checkOneSCT (c\<lparr>VerifyInclusion := vi, Now := n\<rparr>) x leaf \<noteq> checkOneSCT c x leaf \<longrightarrow>
        (\<exists>sct ctLog logInfo. ExtractSCT c x = Inr sct \<and> ll c (LogID sct) = Some ctLog \<and>
           newLogInfoFromLog c ctLog = Inr logInfo \<and>
           VerifySCTSignature c logInfo sct leaf = None))"
proof -
  have attempted: "\<exists>sct ctLog logInfo. ExtractSCT c x = Inr sct \<and> ll c (LogID sct) = Some ctLog \<and>
           newLogInfoFromLog c ctLog = Inr logInfo \<and>
           VerifySCTSignature c logInfo sct leaf = None"
    if "checkOneSCT (c\<lparr>VerifyInclusion := vi, Now := n\<rparr>) x leaf \<noteq> checkOneSCT c x leaf"
    using that by (auto simp: checkOneSCT_def split: sum.splits option.splits)
  then show ?thesis
    by (simp add: checkOneSCT_def)
qed

text \<open>
  One SCT of the concrete environment for each step: malformed, unknown log, log without
  log info, bad signature; and the SCT \<open>[1, 7]\<close>, whose result changes with the inclusion
  check, passes all four.
\<close>
theorem checkOneSCT_order_witness:
  "checkOneSCT demo_env \<lparr>Val = [1]\<rparr> demo_leaf = Err (External ''malformed SCT'')
   \<and> checkOneSCT demo_env \<lparr>Val = [2, 7]\<rparr> demo_leaf = Err (NoLogFound [2])
   \<and> checkOneSCT demo_env \<lparr>Val = [3, 7]\<rparr> demo_leaf = Err (NoLogClient ''broken log'')
   \<and> checkOneSCT demo_env \<lparr>Val = [1, 8]\<rparr> demo_leaf = Err (External ''signature mismatch'')
   \<and> ExtractSCT demo_env \<lparr>Val = [1, 7]\<rparr> = Inr demo_sct
   \<and> ll demo_env (LogID demo_sct) = Some demo_log
   \<and> newLogInfoFromLog demo_env demo_log = Inr \<lparr>InfoDescription = ''demo log'', MMD = 24 * Hour\<rparr>
   \<and> VerifySCTSignature demo_env \<lparr>InfoDescription = ''demo log'', MMD = 24 * Hour\<rparr>
        demo_sct demo_leaf = None"
proof -
  let ?li = "\<lparr>InfoDescription = ''demo log'', MMD = 24 * Hour\<rparr>"
  have a: "checkOneSCT demo_env \<lparr>Val = [1]\<rparr> demo_leaf = Err (External ''malformed SCT'')"
    using checkOneSCT_order [of demo_env "\<lparr>Val = [1]\<rparr>" "''malformed SCT''" demo_leaf]
    by (simp add: demo_env_fields)
  have b: "checkOneSCT demo_env \<lparr>Val = [2, 7]\<rparr> demo_leaf = Err (NoLogFound [2])"
    using checkOneSCT_order [of demo_env "\<lparr>Val = [2, 7]\<rparr>" _ demo_leaf
        "demo_sct\<lparr>LogID := [2], Signature := [7]\<rparr>"]
    by (simp add: demo_env_fields)
  have c: "checkOneSCT demo_env \<lparr>Val = [3, 7]\<rparr> demo_leaf = Err (NoLogClient ''broken log'')"
    using checkOneSCT_order [of demo_env "\<lparr>Val = [3, 7]\<rparr>" "''no key''" demo_leaf
        "demo_sct\<lparr>LogID := [3], Signature := [7]\<rparr>" broken_log]
    by (simp add: demo_env_fields) (simp add: broken_log_def)
  have d: "checkOneSCT demo_env \<lparr>Val = [1, 8]\<rparr> demo_leaf = Err (External ''signature mismatch'')"
    using checkOneSCT_order [of demo_env "\<lparr>Val = [1, 8]\<rparr>" "''signature mismatch''" demo_leaf
        "demo_sct\<lparr>LogID := [1], Signature := [8]\<rparr>" demo_log ?li]
    by (simp add: demo_env_fields)
  let ?late = "demo_env\<lparr>Now := TimestampToTime 1600000000000 + 25 * Hour\<rparr>"
  have differs: "checkOneSCT (?late\<lparr>VerifyInclusion := \<lambda>li leaf ts. Inr 0, Now := 0\<rparr>)
      \<lparr>Val = [1, 7]\<rparr> demo_leaf \<noteq> checkOneSCT ?late \<lparr>Val = [1, 7]\<rparr> demo_leaf"
    by (simp add: checkOneSCT_def demo_env_fields demo_sct_def time_Since_def
        TimestampToTime_def Hour_def minDuration_def maxDuration_def)
  have e: "ExtractSCT demo_env \<lparr>Val = [1, 7]\<rparr> = Inr demo_sct
     \<and> ll demo_env (LogID demo_sct) = Some demo_log
     \<and> newLogInfoFromLog demo_env demo_log = Inr ?li
     \<and> VerifySCTSignature demo_env ?li demo_sct demo_leaf = None"
    using checkOneSCT_order [where c = ?late and x = "\<lparr>Val = [1, 7]\<rparr>" and leaf = demo_leaf
        and vi = "\<lambda>li leaf ts. Inr 0" and n = 0] differs
    by (auto simp: demo_env_fields demo_sct_def)
  from a b c d e show ?thesis by simp
qed

text \<open>
  With three steps only the order is not the code's: the SCT \<open>[3, 8]\<close> deserialises, its log
  is in the list and its signature does not verify, yet the error is not the signature's;
  the SCT \<open>[3, 7]\<close> deserialises, its log is in the list and its signature is the one that
  verifies, yet it fails, and it does so whatever the inclusion check would say.
\<close>
theorem checkOneSCT_order_counterexample:
  "ExtractSCT demo_env \<lparr>Val = [3, 8]\<rparr> = Inr (demo_sct\<lparr>LogID := [3], Signature := [8]\<rparr>)
   \<and> ll demo_env [3] = Some broken_log
   \<and> VerifySCTSignature demo_env \<lparr>InfoDescription = ''broken log'', MMD = 24 * Hour\<rparr>
        (demo_sct\<lparr>LogID := [3], Signature := [8]\<rparr>) demo_leaf = Some ''signature mismatch''
   \<and> checkOneSCT demo_env \<lparr>Val = [3, 8]\<rparr> demo_leaf = Err (NoLogClient ''broken log'')
   \<and> checkOneSCT demo_env \<lparr>Val = [3, 7]\<rparr> demo_leaf = Err (NoLogClient ''broken log'')
   \<and> checkOneSCT (demo_env\<lparr>VerifyInclusion := \<lambda>li leaf ts. Inr 0\<rparr>) \<lparr>Val = [3, 7]\<rparr> demo_leaf
        = Err (NoLogClient ''broken log'')"
  by (simp add: checkOneSCT_def demo_env_fields demo_sct_def)
     (simp add: broken_log_def)

text \<open>
  C7 (amended). When the handshake carries no SCT and the leaf certificate embeds none, the
  check fails with the error of the embedded source, "no SCTs in leaf certificate", the one
  recorded last. The error "no Signed Certificate Timestamps found", with which
  \<open>lastError\<close> starts, is returned by no call at all.
\<close>
theorem checkConnectionState_no_scts:
  "(PeerCertificates st \<noteq> [] \<and> buildCertificateChain c (PeerCertificates st) = Inr chain \<and>
    chain \<noteq> [] \<and> SignedCertificateTimestamps st = [] \<and> SCTList (chain ! 0) = [] \<longrightarrow>
    checkConnectionState c (Some st) = Returns (Err NoSCTsInLeaf))
   \<and> checkConnectionState c state \<noteq> Returns (Err NoSCTsFound)"
proof -
  have empty: "checkConnectionState c (Some st) = Returns (Err NoSCTsInLeaf)"
    if "PeerCertificates st \<noteq> [] \<and> buildCertificateChain c (PeerCertificates st) = Inr chain \<and>
      chain \<noteq> [] \<and> SignedCertificateTimestamps st = [] \<and> SCTList (chain ! 0) = []"
    using that by (simp add: checkConnectionState_chain checkTLSSCTs_def checkCertSCTs_unfold)
  have never: "checkConnectionState c state \<noteq> Returns (Err NoSCTsFound)"
  proof (cases state)
    case None
    then show ?thesis by (simp add: checkConnectionState_def)
  next
    case (Some s)
    show ?thesis
    proof (cases "buildCertificateChain c (PeerCertificates s)")
      case (Inl e)
      with Some show ?thesis by (simp add: checkConnectionState_def)
    next
      case (Inr ch)
      show ?thesis
      proof (cases "PeerCertificates s = []")
        case True
        with Some show ?thesis by (simp add: checkConnectionState_def)
      next
        case False
        from checkConnectionState_chain [OF False Inr] Some show ?thesis
          using checkCertSCTs_not_NoSCTsFound [of c ch]
          by (simp split: status.splits outcome.splits)
      qed
    qed
  qed
  from empty never show ?thesis by blast
qed

text \<open>A two-certificate chain without any SCT, in the concrete environment.\<close>
theorem checkConnectionState_no_scts_witness:
  "checkConnectionState demo_env
     (Some \<lparr>PeerCertificates = [[48], [49]], SignedCertificateTimestamps = [],
            OCSPResponse = []\<rparr>) = Returns (Err NoSCTsInLeaf)"
  using checkConnectionState_no_scts [of
      "\<lparr>PeerCertificates = [[48], [49]], SignedCertificateTimestamps = [], OCSPResponse = []\<rparr>"
      demo_env "map demo_cert [[48], [49]]"]
  by (simp add: demo_env_fields) (simp add: demo_cert_def)

text \<open>
  With every source empty the error is "no SCTs in leaf certificate" and not "no Signed
  Certificate Timestamps found".
\<close>
theorem checkConnectionState_no_scts_counterexample:
  "buildCertificateChain demo_env [[48]] = Inr [demo_cert [48]]
   \<and> SCTList (demo_cert [48]) = []
   \<and> checkConnectionState demo_env
        (Some \<lparr>PeerCertificates = [[48]], SignedCertificateTimestamps = [],
               OCSPResponse = []\<rparr>) = Returns (Err NoSCTsInLeaf)
   \<and> checkConnectionState demo_env
        (Some \<lparr>PeerCertificates = [[48]], SignedCertificateTimestamps = [],
               OCSPResponse = []\<rparr>) \<noteq> Returns (Err NoSCTsFound)"
  by (simp add: checkConnectionState_def checkTLSSCTs_def checkCertSCTs_def
      index_def demo_env_fields demo_cert_def)

text \<open>
  C8. Each boolean variant returns what the reason-carrying logic of its source gives for
  the one given SCT and the same chain, with only the error dropped. \<open>VerifyTLSSCTs\<close> and
  \<open>VerifyOcspSCTs\<close> return true exactly when \<open>checkTLSSCTs\<close> and \<open>checkOcspSCTs\<close>, given the
  one-element list of that SCT, return nil, false when those return an error, and they
  panic when those panic (on the empty chain, in the leaf builder); on a non-empty chain
  this is: the leaf of the chain is built and \<open>checkOneSCT\<close> accepts the SCT against it.
  \<open>VerifyCertSCTs\<close> of any SCT, embedded in the leaf certificate or not, returns true on a
  non-empty chain exactly when the guards of \<open>checkCertSCTs\<close> pass (the leaf certificate
  embeds some SCT, the chain has an issuer), the same embedded-SCT leaf is built and
  \<open>checkOneSCT\<close> accepts the given SCT against it, and false otherwise; on the empty chain
  it panics, as \<open>checkCertSCTs\<close> does. On a chain whose leaf certificate embeds exactly the
  given SCT this is the result of \<open>checkCertSCTs\<close>. Conversely each reason-carrying check
  of a source returns nil exactly when the boolean variant is true for some SCT of the
  source's list.
\<close>
theorem Verify_variants_agree:
  "VerifyTLSSCTs c sct chain =
     (case checkTLSSCTs c [sct] chain of Panic \<Rightarrow> Panic | Returns r \<Rightarrow> Returns (r = Nil))
   \<and> VerifyOcspSCTs c sct chain =
     (case checkOcspSCTs c [sct] chain of Panic \<Rightarrow> Panic | Returns r \<Rightarrow> Returns (r = Nil))
   \<and> (chain \<noteq> [] \<longrightarrow>
        VerifyTLSSCTs c sct chain =
          Returns (\<exists>leaf. MerkleTreeLeafFromChain c chain X509LogEntryType 0 = Inr leaf \<and>
                     checkOneSCT c \<lparr>Val = sct\<rparr> leaf = Nil))
   \<and> (chain \<noteq> [] \<longrightarrow>
        VerifyOcspSCTs c sct chain =
          Returns (\<exists>leaf. MerkleTreeLeafFromChain c chain X509LogEntryType 0 = Inr leaf \<and>
                     checkOneSCT c \<lparr>Val = sct\<rparr> leaf = Nil))
   \<and> (chain \<noteq> [] \<longrightarrow>
        VerifyCertSCTs c x chain =
          Returns (SCTList (chain ! 0) \<noteq> [] \<and> 2 \<le> length chain \<and>
                   (\<exists>leaf. MerkleTreeLeafForEmbeddedSCT c [chain ! 0, chain ! 1] 0 = Inr leaf \<and>
                      checkOneSCT c x leaf = Nil)))
   \<and> VerifyTLSSCTs c sct [] = Panic
   \<and> VerifyOcspSCTs c sct [] = Panic
   \<and> VerifyCertSCTs c x [] = Panic
   \<and> (chain \<noteq> [] \<and> SCTList (chain ! 0) = [x] \<longrightarrow>
        VerifyCertSCTs c x chain = Returns (checkCertSCTs c chain = Returns Nil))
   \<and> (checkTLSSCTs c scts chain = Returns Nil) =
       (\<exists>s\<in>set scts. VerifyTLSSCTs c s chain = Returns True)
   \<and> (checkOcspSCTs c scts chain = Returns Nil) =
       (\<exists>s\<in>set scts. VerifyOcspSCTs c s chain = Returns True)
   \<and> (chain \<noteq> [] \<longrightarrow>
        (checkCertSCTs c chain = Returns Nil) =
          (\<exists>s\<in>set (SCTList (chain ! 0)). VerifyCertSCTs c s chain = Returns True))"
proof -
  have tls1: "VerifyTLSSCTs c sct chain =
      (case checkTLSSCTs c [sct] chain of Panic \<Rightarrow> Panic | Returns r \<Rightarrow> Returns (r = Nil))"
    by (simp add: VerifyTLSSCTs_def checkTLSSCTs_def
        split: outcome.splits sum.splits status.splits)
  have ocsp1: "VerifyOcspSCTs c sct chain =
      (case checkOcspSCTs c [sct] chain of Panic \<Rightarrow> Panic | Returns r \<Rightarrow> Returns (r = Nil))"
    by (simp add: VerifyOcspSCTs_def checkOcspSCTs_def
        split: outcome.splits sum.splits status.splits)
  have cert_given: "VerifyCertSCTs c x chain =
      Returns (SCTList (chain ! 0) \<noteq> [] \<and> 2 \<le> length chain \<and>
               (\<exists>leaf. MerkleTreeLeafForEmbeddedSCT c [chain ! 0, chain ! 1] 0 = Inr leaf \<and>
                  checkOneSCT c x leaf = Nil))"
    if "chain \<noteq> []"
    using that
    by (cases "MerkleTreeLeafForEmbeddedSCT c [chain ! 0, chain ! 1] 0")
       (auto simp: VerifyCertSCTs_unfold)
  have cert1: "VerifyCertSCTs c x chain = Returns (checkCertSCTs c chain = Returns Nil)"
    if "chain \<noteq> [] \<and> SCTList (chain ! 0) = [x]"
    using that
    by (simp add: VerifyCertSCTs_unfold checkCertSCTs_unfold split: sum.splits status.splits)
  have tls: "(checkTLSSCTs c scts chain = Returns Nil) =
      (\<exists>s\<in>set scts. VerifyTLSSCTs c s chain = Returns True)"
  proof (cases "chain = []")
    case True
    then show ?thesis by (simp add: checkTLSSCTs_Nil_iff VerifyTLSSCTs_empty)
  next
    case False
    then show ?thesis by (auto simp: checkTLSSCTs_Nil_iff VerifyTLSSCTs_nonempty)
  qed
  have ocsp: "(checkOcspSCTs c scts chain = Returns Nil) =
      (\<exists>s\<in>set scts. VerifyOcspSCTs c s chain = Returns True)"
  proof (cases "chain = []")
    case True
    then show ?thesis by (simp add: checkOcspSCTs_Nil_iff VerifyOcspSCTs_empty)
  next
    case False
    then show ?thesis by (auto simp: checkOcspSCTs_Nil_iff VerifyOcspSCTs_nonempty)
  qed
  have cert: "(checkCertSCTs c chain = Returns Nil) =
      (\<exists>s\<in>set (SCTList (chain ! 0)). VerifyCertSCTs c s chain = Returns True)"
    if "chain \<noteq> []"
    using that
    by (auto simp: checkCertSCTs_Nil_iff VerifyCertSCTs_True_iff)
  have empty: "VerifyCertSCTs c x [] = Panic"
    by (simp add: VerifyCertSCTs_Panic_iff)
  from tls1 ocsp1 cert_given cert1 tls ocsp cert empty
    VerifyTLSSCTs_nonempty [of chain c sct] VerifyOcspSCTs_nonempty [of chain c sct]
    VerifyTLSSCTs_empty [of c sct] VerifyOcspSCTs_empty [of c sct]
  show ?thesis by blast
qed

text \<open>
  In the concrete environment: a valid SCT that the leaf certificate does not embed is
  accepted by \<open>VerifyCertSCTs\<close> although the embedded source fails on the SCT that it does
  embed; an SCT of an unknown log is refused although the embedded one is valid; and the
  variants agree with the source checks on a valid embedded SCT, a valid handshake SCT and
  an OCSP SCT with a bad signature.
\<close>
theorem Verify_variants_agree_witness:
  "VerifyCertSCTs demo_env \<lparr>Val = [1, 7]\<rparr> [demo_cert [48, 2], demo_cert [49]] = Returns True
   \<and> checkCertSCTs demo_env [demo_cert [48, 2], demo_cert [49]] =
       Returns (Err NoValidSCTInHandshake)
   \<and> VerifyCertSCTs demo_env \<lparr>Val = [2, 7]\<rparr> [demo_cert [48, 1], demo_cert [49]] = Returns False
   \<and> VerifyCertSCTs demo_env \<lparr>Val = [1, 7]\<rparr> [demo_cert [48, 1], demo_cert [49]] = Returns True
   \<and> checkCertSCTs demo_env [demo_cert [48, 1], demo_cert [49]] = Returns Nil
   \<and> VerifyTLSSCTs demo_env [1, 7] [demo_cert [48]] = Returns True
   \<and> VerifyOcspSCTs demo_env [1, 8] [demo_cert [48]] = Returns False"
proof -
  let ?good = "[demo_cert [48, 1], demo_cert [49]]"
  let ?bad = "[demo_cert [48, 2], demo_cert [49]]"
  have good: "checkCertSCTs demo_env ?good = Returns Nil"
    and bad: "checkCertSCTs demo_env ?bad = Returns (Err NoValidSCTInHandshake)"
    and tls: "checkTLSSCTs demo_env [[1, 7]] [demo_cert [48]] = Returns Nil"
    and ocsp: "checkOcspSCTs demo_env [[1, 8]] [demo_cert [48]] =
      Returns (Err NoValidSCTInHandshake)"
    by (simp_all add: checkCertSCTs_def checkTLSSCTs_nonempty checkOcspSCTs_nonempty index_def
        demo_env_fields demo_checkOneSCT demo_cert_def)
  have given_passes: "VerifyCertSCTs demo_env \<lparr>Val = [1, 7]\<rparr> ?bad =
      Returns (SCTList (?bad ! 0) \<noteq> [] \<and> 2 \<le> length ?bad \<and>
               (\<exists>leaf. MerkleTreeLeafForEmbeddedSCT demo_env [?bad ! 0, ?bad ! 1] 0 = Inr leaf \<and>
                  checkOneSCT demo_env \<lparr>Val = [1, 7]\<rparr> leaf = Nil))"
    and given_fails: "VerifyCertSCTs demo_env \<lparr>Val = [2, 7]\<rparr> ?good =
      Returns (SCTList (?good ! 0) \<noteq> [] \<and> 2 \<le> length ?good \<and>
               (\<exists>leaf. MerkleTreeLeafForEmbeddedSCT demo_env [?good ! 0, ?good ! 1] 0 = Inr leaf \<and>
                  checkOneSCT demo_env \<lparr>Val = [2, 7]\<rparr> leaf = Nil))"
    using Verify_variants_agree [where c = demo_env and chain = ?bad and x = "\<lparr>Val = [1, 7]\<rparr>"]
      Verify_variants_agree [where c = demo_env and chain = ?good and x = "\<lparr>Val = [2, 7]\<rparr>"]
    by blast+
  have a: "VerifyCertSCTs demo_env \<lparr>Val = [1, 7]\<rparr> ?bad = Returns True"
    unfolding given_passes by (simp add: demo_env_fields demo_checkOneSCT demo_cert_def)
  have b: "VerifyCertSCTs demo_env \<lparr>Val = [2, 7]\<rparr> ?good = Returns False"
    unfolding given_fails by (simp add: demo_env_fields demo_checkOneSCT demo_cert_def)
  have "VerifyCertSCTs demo_env \<lparr>Val = [1, 7]\<rparr> ?good =
      Returns (checkCertSCTs demo_env ?good = Returns Nil)"
    using Verify_variants_agree [where c = demo_env and chain = ?good and x = "\<lparr>Val = [1, 7]\<rparr>",
        THEN conjunct2, THEN conjunct2, THEN conjunct2, THEN conjunct2, THEN conjunct2,
        THEN conjunct2, THEN conjunct2, THEN conjunct2, THEN conjunct1]
    by (simp add: demo_cert_def)
  with good have c: "VerifyCertSCTs demo_env \<lparr>Val = [1, 7]\<rparr> ?good = Returns True"
    by simp
  have d: "VerifyTLSSCTs demo_env [1, 7] [demo_cert [48]] = Returns True"
    using Verify_variants_agree [where c = demo_env and chain = "[demo_cert [48]]"
        and sct = "[1, 7]", THEN conjunct1] tls
    by simp
  have e: "VerifyOcspSCTs demo_env [1, 8] [demo_cert [48]] = Returns False"
    using Verify_variants_agree [where c = demo_env and chain = "[demo_cert [48]]"
        and sct = "[1, 8]", THEN conjunct2, THEN conjunct1] ocsp
    by simp
  from a bad b c good d e show ?thesis by simp
qed

text \<open>
  C10. In \<open>checkCertSCTs\<close> and \<open>VerifyCertSCTs\<close> the leaf \<^verbatim>\<open>chain[0]\<close> is read before any
  check and the issuer \<^verbatim>\<open>chain[1]\<close> only behind the guard on the length: on every chain
  with at least one element neither panics, and on the empty chain both panic, so a
  non-empty chain is what \<open>VerifyCertSCTs\<close> needs from its caller. \<open>checkConnectionState\<close>
  panics only if \<^verbatim>\<open>buildCertificateChain\<close> returns an empty chain, without error, for a
  non-empty list of peer certificates; when it returns one certificate for each peer
  certificate, the check of the peer certificates keeps \<open>checkCertSCTs\<close> from panicking.
\<close>
theorem embedded_path_index_safety:
  "(chain \<noteq> [] \<longrightarrow> checkCertSCTs c chain \<noteq> Panic \<and> VerifyCertSCTs c sct chain \<noteq> Panic)
   \<and> checkCertSCTs c [] = Panic
   \<and> VerifyCertSCTs c sct [] = Panic
   \<and> (checkConnectionState c state = Panic \<longrightarrow>
        (\<exists>st. state = Some st \<and> PeerCertificates st \<noteq> [] \<and>
           buildCertificateChain c (PeerCertificates st) = Inr []))
   \<and> ((\<forall>certs chain'. buildCertificateChain c certs = Inr chain' \<longrightarrow>
          length chain' = length certs) \<longrightarrow>
        checkConnectionState c state \<noteq> Panic)"
proof -
  have only: "\<exists>st. state = Some st \<and> PeerCertificates st \<noteq> [] \<and>
      buildCertificateChain c (PeerCertificates st) = Inr []"
    if "checkConnectionState c state = Panic"
    using that
    by (auto simp: checkConnectionState_def checkCertSCTs_Panic_iff checkTLSSCTs_Panic_iff
        split: option.splits sum.splits status.splits outcome.splits if_splits)
  then have safe: "checkConnectionState c state \<noteq> Panic"
    if "\<forall>certs chain'. buildCertificateChain c certs = Inr chain' \<longrightarrow>
      length chain' = length certs"
    using that by fastforce
  from only safe show ?thesis
    by (simp add: checkCertSCTs_Panic_iff VerifyCertSCTs_Panic_iff)
qed

text \<open>
  In the concrete environment, whose chain has one certificate for each peer certificate,
  nothing panics on a one-certificate chain; with a chain builder that returns the empty
  chain the connection check panics.
\<close>
theorem embedded_path_index_safety_witness:
  "checkCertSCTs demo_env [demo_cert [48, 1]] \<noteq> Panic
   \<and> VerifyCertSCTs demo_env \<lparr>Val = [1, 7]\<rparr> [demo_cert [48, 1]] \<noteq> Panic
   \<and> checkConnectionState demo_env
        (Some \<lparr>PeerCertificates = [[48, 1]], SignedCertificateTimestamps = [],
               OCSPResponse = []\<rparr>) \<noteq> Panic
   \<and> checkConnectionState (demo_env\<lparr>buildCertificateChain := \<lambda>certs. Inr []\<rparr>)
        (Some \<lparr>PeerCertificates = [[48, 1]], SignedCertificateTimestamps = [],
               OCSPResponse = []\<rparr>) = Panic
   \<and> buildCertificateChain (demo_env\<lparr>buildCertificateChain := \<lambda>certs. Inr []\<rparr>) [[48, 1]] =
       Inr []"
proof -
  let ?st = "\<lparr>PeerCertificates = [[48, 1]], SignedCertificateTimestamps = [],
               OCSPResponse = []\<rparr>"
  let ?short = "demo_env\<lparr>buildCertificateChain := \<lambda>certs. Inr []\<rparr>"
  have a: "checkCertSCTs demo_env [demo_cert [48, 1]] \<noteq> Panic
      \<and> VerifyCertSCTs demo_env \<lparr>Val = [1, 7]\<rparr> [demo_cert [48, 1]] \<noteq> Panic"
    using embedded_path_index_safety [where c = demo_env and chain = "[demo_cert [48, 1]]"
        and sct = "\<lparr>Val = [1, 7]\<rparr>"]
    by simp
  have b: "checkConnectionState demo_env (Some ?st) \<noteq> Panic"
    using embedded_path_index_safety [where c = demo_env and state = "Some ?st"]
    by (simp add: demo_env_fields)
  have panics: "checkConnectionState ?short (Some ?st) = Panic"
    by (simp add: checkConnectionState_def checkTLSSCTs_def checkCertSCTs_def index_def)
  have c: "buildCertificateChain ?short [[48, 1]] = Inr []"
    using embedded_path_index_safety [where c = ?short and state = "Some ?st"] panics
    by simp
  from a b panics c show ?thesis by simp
qed

end
